theory Spec2Isabelle
  imports Complex_Main "HOL-Library.Char_ord" "HOL-Library.List_Lexorder"
    "HOL-Library.Option_ord" "HOL-Library.Sublist" "HOL-Library.Multiset"
begin

section \<open>JavaScript string helpers\<close>

text \<open>
  Strings are byte strings; \<open>toLowerCase\<close>, \<open>includes\<close> and \<open>trim\<close> are modelled on
  the ASCII range, which covers every keyword the engine looks for.
\<close>

definition lower_char :: "char \<Rightarrow> char" where
  "lower_char c =
     (let n = (of_char c :: nat) in if 65 \<le> n \<and> n \<le> 90 then char_of (n + 32) else c)"

definition toLowerCase :: "string \<Rightarrow> string" where
  "toLowerCase s = map lower_char s"

fun starts_with :: "string \<Rightarrow> string \<Rightarrow> bool" where
  "starts_with s [] = True"
| "starts_with [] (p # ps) = False"
| "starts_with (c # cs) (p # ps) = (c = p \<and> starts_with cs ps)"

fun str_includes :: "string \<Rightarrow> string \<Rightarrow> bool" where
  "str_includes [] sub = (sub = [])"
| "str_includes (c # cs) sub = (starts_with (c # cs) sub \<or> str_includes cs sub)"

definition is_digit :: "char \<Rightarrow> bool" where
  "is_digit c = (let n = (of_char c :: nat) in 48 \<le> n \<and> n \<le> 57)"

text \<open>JavaScript's \<open>\s\<close> on the ASCII range: space, tab, line feed, vertical tab,
  form feed and carriage return.\<close>

definition is_space :: "char \<Rightarrow> bool" where
  "is_space c = (let n = (of_char c :: nat) in n = 32 \<or> (9 \<le> n \<and> n \<le> 13))"

definition trim :: "string \<Rightarrow> string" where
  "trim s = rev (dropWhile is_space (rev (dropWhile is_space s)))"

section \<open>Model scorer (modelDiscovery.ts)\<close>

definition digit_val :: "char \<Rightarrow> nat" where
  "digit_val c = of_char c - 48"

definition dec_val :: "string \<Rightarrow> nat" where
  "dec_val ds = foldl (\<lambda>n c. 10 * n + digit_val c) 0 ds"

text \<open>
  \<open>parseFloat\<close> of a text matching \<open>\d+(\.\d+)?\<close>, read at the start of \<open>s\<close>: the
  digits are taken greedily, and a dot belongs to the number only when a digit follows
  it. The value is kept exact (a rational), where JavaScript rounds to a double.
\<close>

definition version_at :: "string \<Rightarrow> rat option" where
  "version_at s =
     (let ip = takeWhile is_digit s; rest = dropWhile is_digit s in
      if ip = [] then None
      else (case rest of
              [] \<Rightarrow> Some (of_nat (dec_val ip))
            | d # r \<Rightarrow>
                (let fp = takeWhile is_digit r in
                 if d = CHR ''.'' \<and> fp \<noteq> []
                 then Some (of_nat (dec_val ip) + of_nat (dec_val fp) / 10 ^ length fp)
                 else Some (of_nat (dec_val ip)))))"

text \<open>The leftmost match of \<open>/gemini-(\d+(\.\d+)?)/\<close>, as the value of its group 1.\<close>

fun match_version :: "string \<Rightarrow> rat option" where
  "match_version [] = None"
| "match_version (c # cs) =
     (if starts_with (c # cs) ''gemini-''
      then (case version_at (drop 7 (c # cs)) of
              Some v \<Rightarrow> Some v
            | None \<Rightarrow> match_version cs)
      else match_version cs)"

text \<open>Step 1 of \<open>getModelScore\<close>: version extraction.\<close>

definition version_score :: "string \<Rightarrow> rat" where
  "version_score lower =
     (case match_version lower of
        Some v \<Rightarrow> v * 1000
      | None \<Rightarrow> if str_includes lower ''gemini-pro'' then 1000 else 0)"

text \<open>Step 2: tier capability.\<close>

definition tier_score :: "string \<Rightarrow> rat" where
  "tier_score lower =
     (if str_includes lower ''gemini-3'' \<and> str_includes lower ''flash'' then 2000
      else if str_includes lower ''gemini-3'' then 60
      else if str_includes lower ''ultra'' then 50
      else if str_includes lower ''pro'' then 40
      else if str_includes lower ''flash'' then 30
      else if str_includes lower ''nano'' then 10
      else 20)"

text \<open>Step 3: modifiers.\<close>

definition modifier_score :: "string \<Rightarrow> rat" where
  "modifier_score lower =
     (if str_includes lower ''preview'' then 5 else 0)
     + (if str_includes lower ''experimental'' then 1 else 0)
     + (if str_includes lower ''vision'' then 2 else 0)"

definition getModelScore :: "string \<Rightarrow> rat" where
  "getModelScore name =
     (let lower = toLowerCase name in
      version_score lower + tier_score lower + modifier_score lower)"

section \<open>Data model (db.ts)\<close>

text \<open>
  A table is the list of its rows in insertion order. A nullable column is an option.
  Text columns that hold JSON are kept as what \<open>JSON.parse\<close> makes of them, in the
  shapes the engine distinguishes.
\<close>

text \<open>The \<open>available_models\<close> column of a key: NULL or empty, text that \<open>JSON.parse\<close>
  rejects, JSON that is neither an array nor a string, an array of strings (the old
  format), or an array of objects with a \<open>name\<close> (the format the discovery service
  writes), of which only the names are kept.\<close>

datatype stored_models =
    Models_null
  | Models_unparseable
  | Models_not_array
  | Models_names "string list"
  | Models_objects "string list"

text \<open>The \<open>parameter_schema\<close> column of a tool: NULL or empty, unparseable text, a
  JSON value without keys (the column default \<open>{}\<close>), or a JSON value with at least one
  key, kept as its text.\<close>

datatype stored_schema =
    Schema_null
  | Schema_unparseable
  | Schema_empty
  | Schema_value string

record gemini_key =
  key_id :: string
  key_secret :: string
  key_status :: "string option"
  last_used_at :: "string option"
  key_user_id :: "string option"
  best_model :: "string option"
  available_models :: stored_models

record tool =
  tool_id :: string
  tool_name :: string
  tool_endpoint :: string
  tool_api_key :: "string option"
  tool_description :: "string option"
  is_active :: int
  is_admin_only :: int
  tool_user_id :: "string option"
  tool_method :: "string option"
  tool_headers :: "string option"
  parameter_schema :: stored_schema
  auth_type :: "string option"
  auth_param_name :: "string option"

record user_memory =
  mem_id :: string
  mem_user_id :: string
  mem_content :: string
  mem_created_at :: string
  memory_type :: "string option"
  mem_platform :: "string option"
  external_id :: "string option"

datatype chat_type = Private | Group

record chat_log =
  log_id :: string
  log_user_id :: string
  log_chat_id :: string
  log_platform :: string
  log_role :: string
  log_content :: string
  log_raw_response :: "string option"
  log_created_at :: string
  log_chat_type :: chat_type
  log_group_id :: "string option"
  log_sender_id :: "string option"
  log_sender_name :: "string option"

record bot_log =
  bl_id :: string
  bl_request_payload :: "string \<times> string"
  bl_response_payload :: string
  bl_raw_response :: string
  bl_api_key_used :: string
  bl_user_id :: string
  bl_chat_id :: string
  bl_model_used :: string
  bl_token_usage :: "string option"

record playground_message =
  pm_chat_id :: string
  pm_role :: string
  pm_content :: string
  pm_user_id :: string

record platform_integration =
  pi_user_id :: "string option"
  pi_platform :: string
  share_active_memory :: int

record platform_admin =
  pa_user_id :: "string option"
  pa_platform :: string
  pa_platform_user_id :: string

record user_settings =
  us_user_id :: string
  us_temperature :: "rat option"
  us_max_output_tokens :: "int option"
  us_preferred_model :: "string option"
  enable_web_search :: "int option"
  enable_weather :: "int option"
  enable_calculator :: "int option"
  enable_scraper :: "int option"
  enable_github :: "int option"
  enable_currency :: "int option"

record personality =
  pers_id :: string
  pers_name :: string
  system_prompt :: string
  pers_is_active :: int
  pers_user_id :: "string option"

section \<open>Provider and tool protocol\<close>

record tool_call =
  call_name :: string
  call_args :: "(string \<times> string) list"

datatype tool_payload = Content string | Error string

record function_response =
  fr_name :: string
  fr_response :: tool_payload

text \<open>A provider response: its text, its function calls, its usage metadata when
  present, and its JSON text (\<open>JSON.stringify(result.response)\<close>).\<close>

record response =
  resp_text :: string
  resp_function_calls :: "tool_call list"
  resp_usage :: "string option"
  resp_json :: string

text \<open>A parameter schema of a declaration: an object schema given by its properties
  (name and type) and its required names, or a stored schema as parsed.\<close>

datatype parameters =
    Object_schema "(string \<times> string) list" "string list"
  | Parsed_schema string

record function_declaration =
  fd_name :: string
  fd_description :: "string option"
  fd_parameters :: parameters

text \<open>The system instruction, by its sections: the persona prompt, the contents of the
  core and of the learned memories, the knowledge bank, whether the response protocol is
  added, and the speaker named by the group privacy protocol when that is added.\<close>

record system_instruction =
  si_persona :: string
  si_core_memories :: "string list"
  si_active_memories :: "string list"
  si_knowledge_bank :: string
  si_response_protocol :: bool
  si_group_privacy :: "string option"

record request =
  req_system_instruction :: system_instruction
  req_tools :: "function_declaration list"
  req_temperature :: rat
  req_max_output_tokens :: int
  req_history :: "(string \<times> string) list"
  req_prompt :: string
  req_media :: "(string \<times> string) list"

text \<open>What the engine sends to the provider: the first message of a chat, or the
  function responses of the tool round.\<close>

datatype provider_call =
    First_call string string
  | Followup_call string string "function_response list"

text \<open>
  The state of a turn's surroundings: the tables, the knowledge bank file, the number of
  identifiers drawn so far, and three logs that only record what the engine did: the
  provider calls issued, the tool calls dispatched and the texts handed to \<open>eval\<close>.
\<close>

record world =
  gemini_keys :: "gemini_key list"
  tools :: "tool list"
  user_memories :: "user_memory list"
  chat_logs :: "chat_log list"
  bot_logs :: "bot_log list"
  playground_history :: "playground_message list"
  platform_integrations :: "platform_integration list"
  platform_admins :: "platform_admin list"
  settings_table :: "user_settings list"
  personalities :: "personality list"
  knowledge_bank :: string
  uuid_count :: nat
  provider_log :: "provider_call list"
  tool_log :: "tool_call list"
  eval_log :: "string list"

text \<open>
  Everything outside the engine: the provider (an error message when the call throws),
  the evaluator behind the calculator (the thrown message, or the result as text), the
  network helpers, the webhook call of a custom tool, identifiers and clocks.
\<close>

record env =
  sendMessage :: "gemini_key \<Rightarrow> string \<Rightarrow> request \<Rightarrow> string + response"
  sendFunctionResponses ::
    "gemini_key \<Rightarrow> string \<Rightarrow> request \<Rightarrow> function_response list \<Rightarrow> string + response"
  js_eval :: "string \<Rightarrow> string + string"
  webSearch :: "string option \<Rightarrow> string"
  getWeather :: "string option \<Rightarrow> string"
  simpleScrape :: "string option \<Rightarrow> string"
  getGithubRepo :: "string option \<Rightarrow> string option \<Rightarrow> string"
  convertCurrency :: "string option \<Rightarrow> string option \<Rightarrow> string option \<Rightarrow> string"
  downloadMedia :: "string \<Rightarrow> string option \<Rightarrow> string"
  call_webhook :: "tool \<Rightarrow> (string \<times> string) list \<Rightarrow> string + string"
  uuidv4 :: "nat \<Rightarrow> string"
  now_iso :: string
  current_timestamp :: string
  date_now :: string
  bind_error :: string

section \<open>JavaScript values\<close>

text \<open>A value that may be null or undefined is truthy when it is a non-empty string.\<close>

definition truthy :: "string option \<Rightarrow> bool" where
  "truthy v = (case v of None \<Rightarrow> False | Some s \<Rightarrow> s \<noteq> [])"

text \<open>\<open>v || d\<close> on strings.\<close>

definition or_else :: "string option \<Rightarrow> string \<Rightarrow> string" where
  "or_else v d = (case v of None \<Rightarrow> d | Some s \<Rightarrow> if s \<noteq> [] then s else d)"

text \<open>A value inside a template literal: a missing one reads \<open>undefined\<close>.\<close>

definition str_of :: "string option \<Rightarrow> string" where
  "str_of v = (case v of None \<Rightarrow> ''undefined'' | Some s \<Rightarrow> s)"

definition null_str :: "string option \<Rightarrow> string" where
  "null_str v = (case v of None \<Rightarrow> ''null'' | Some s \<Rightarrow> s)"

definition arg :: "string \<Rightarrow> tool_call \<Rightarrow> string option" where
  "arg n c = map_of (call_args c) n"

text \<open>\<open>JSON.stringify\<close> of a flat object, without escaping inside the texts.\<close>

definition json_str :: "string \<Rightarrow> string" where
  "json_str s = [CHR 0x22] @ s @ [CHR 0x22]"

fun json_fields :: "(string \<times> string) list \<Rightarrow> string" where
  "json_fields [] = []"
| "json_fields [(k, v)] = json_str k @ '':'' @ v"
| "json_fields ((k, v) # kvs) = json_str k @ '':'' @ v @ '','' @ json_fields kvs"

definition json_object :: "(string \<times> string) list \<Rightarrow> string" where
  "json_object kvs = ''{'' @ json_fields kvs @ ''}''"

fun join_lines :: "string list \<Rightarrow> string" where
  "join_lines [] = []"
| "join_lines [l] = l"
| "join_lines (l # ls) = l @ [CHR 0x0A] @ join_lines ls"

section \<open>Tool registry (gemini.ts, tool definitions)\<close>

definition is_admin :: "world \<Rightarrow> string \<Rightarrow> string \<Rightarrow> string option \<Rightarrow> bool" where
  "is_admin w userId platform senderId =
     (if platform = ''playground'' \<or> platform = ''web'' then True
      else (case senderId of
              None \<Rightarrow> False
            | Some s \<Rightarrow> s \<noteq> [] \<and>
                list_ex (\<lambda>a. pa_user_id a = Some userId \<and> pa_platform a = platform
                              \<and> pa_platform_user_id a = s) (platform_admins w)))"

definition get_settings :: "world \<Rightarrow> string \<Rightarrow> user_settings option" where
  "get_settings w userId = find (\<lambda>s. us_user_id s = userId) (settings_table w)"

text \<open>\<open>settings?.enable_x !== 0\<close>.\<close>

definition enabled :: "user_settings option \<Rightarrow> (user_settings \<Rightarrow> int option) \<Rightarrow> bool" where
  "enabled settings flag = (case settings of None \<Rightarrow> True | Some s \<Rightarrow> flag s \<noteq> Some 0)"

definition builtin :: "string \<Rightarrow> string \<Rightarrow> (string \<times> string) list \<Rightarrow> string list
    \<Rightarrow> function_declaration" where
  "builtin n d props req =
     \<lparr>fd_name = n, fd_description = Some d, fd_parameters = Object_schema props req\<rparr>"

definition payload_schema :: parameters where
  "payload_schema = Object_schema [(''payload'', ''string'')] [''payload'']"

text \<open>\<open>SELECT * FROM tools WHERE is_active = 1 AND (is_admin_only = 0 OR user_id = ?)\<close>\<close>

definition customTools :: "world \<Rightarrow> string \<Rightarrow> tool list" where
  "customTools w userId =
     filter (\<lambda>t. is_active t = 1 \<and> (is_admin_only t = 0 \<or> tool_user_id t = Some userId))
       (tools w)"

definition custom_declaration :: "tool \<Rightarrow> function_declaration" where
  "custom_declaration t =
     \<lparr>fd_name = tool_name t, fd_description = tool_description t,
      fd_parameters = (case parameter_schema t of
                         Schema_value parsed \<Rightarrow> Parsed_schema parsed
                       | _ \<Rightarrow> payload_schema)\<rparr>"

definition functionDeclarations ::
    "user_settings option \<Rightarrow> bool \<Rightarrow> tool list \<Rightarrow> function_declaration list" where
  "functionDeclarations settings isAdmin custom =
     (if enabled settings enable_web_search
      then [builtin ''webSearch''
              ''Search the web for information. Use this when you need current events, news, or specific facts.''
              [(''query'', ''string'')] [''query'']] else [])
     @ (if enabled settings enable_weather
        then [builtin ''getWeather'' ''Get current weather for a location.''
                [(''location'', ''string'')] [''location'']] else [])
     @ (if enabled settings enable_calculator
        then [builtin ''calculator'' ''Perform mathematical calculations safely.''
                [(''expression'', ''string'')] [''expression'']] else [])
     @ (if enabled settings enable_scraper
        then [builtin ''scrapeUrl''
                ''Read the content of a specific webpage URL. Use this to get detailed content from a search result.''
                [(''url'', ''string'')] [''url'']] else [])
     @ (if isAdmin
        then [builtin ''installTool''
                ''Install a new tool/integration from the web. Use this when the user asks to 'get' or 'integrate' a tool found on the internet. You should first search for the tool, analyze its API/documentation (using scrapeUrl), and then call this function with the details.''
                [(''name'', ''string''), (''endpoint'', ''string''), (''description'', ''string''),
                 (''method'', ''string''), (''headers'', ''object''), (''payloadSchema'', ''object''),
                 (''apiKey'', ''string''), (''authType'', ''string''), (''authParamName'', ''string'')]
                [''name'', ''endpoint'', ''description'']] else [])
     @ (if enabled settings enable_github
        then [builtin ''githubRepo''
                ''Get details and README content from a GitHub repository. Use this to analyze a repo's purpose, documentation, or API usage.''
                [(''owner'', ''string''), (''repo'', ''string'')] [''owner'', ''repo'']] else [])
     @ (if enabled settings enable_currency
        then [builtin ''currencyConverter'' ''Convert currency from one to another.''
                [(''amount'', ''number''), (''from'', ''string''), (''to'', ''string'')]
                [''amount'', ''from'', ''to'']] else [])
     @ [builtin ''deleteTool''
          ''Deletes a custom tool that was previously installed by the user.''
          [(''name'', ''string'')] [''name''],
        builtin ''sendMedia''
          ''Send an image, video, or audio file to the user. Use this when the user asks for a picture, meme, or media file, or when you find a relevant image URL from a search.''
          [(''url'', ''string''), (''mediaType'', ''string'')] [''url'', ''mediaType'']]
     @ map custom_declaration custom
     @ [builtin ''saveMemory''
          ''Save important facts, preferences, or rules about the user to permanent memory for future reference. Use this when the user explicitly asks you to remember something or when you detect a significant user preference.''
          [(''content'', ''string'')] [''content''],
        builtin ''manageTools''
          ''Manage custom tools and integrations. You can add new tools (webhooks), remove them, or list them.''
          [(''action'', ''string''), (''name'', ''string''), (''endpoint'', ''string''),
           (''description'', ''string''), (''id'', ''string'')] [''action'']]"

section \<open>Credential pool and candidate cascade\<close>

text \<open>
  \<open>SELECT * FROM gemini_keys WHERE user_id = ? AND status = 'active' ORDER BY last_used_at ASC\<close>:
  NULL sorts first, texts compare bytewise; rows with equal \<open>last_used_at\<close> keep the
  table's order.
\<close>

definition active_keys :: "world \<Rightarrow> string \<Rightarrow> gemini_key list" where
  "active_keys w userId =
     sort_key last_used_at
       (filter (\<lambda>k. key_user_id k = Some userId \<and> key_status k = Some ''active'')
          (gemini_keys w))"

text \<open>The filter for keys that support the preferred model: \<open>models.includes\<close> compares
  the elements of the parsed array with the model name, so an array of objects never
  contains it.\<close>

definition supports :: "string \<Rightarrow> gemini_key \<Rightarrow> bool" where
  "supports preferredModel k =
     (case available_models k of
        Models_names ns \<Rightarrow> preferredModel \<in> set ns
      | _ \<Rightarrow> False)"

definition key_score :: "gemini_key \<Rightarrow> rat" where
  "key_score k = (if truthy (best_model k) then getModelScore (str_of (best_model k)) else 0)"

text \<open>\<open>Array.prototype.sort\<close> is stable; the comparator \<open>score(b) - score(a)\<close> sorts by
  descending score.\<close>

definition sort_keys_by_score :: "gemini_key list \<Rightarrow> gemini_key list" where
  "sort_keys_by_score ks = sort_key (\<lambda>k. - key_score k) ks"

definition sort_models_by_score :: "string list \<Rightarrow> string list" where
  "sort_models_by_score ms = sort_key (\<lambda>m. - getModelScore m) ms"

text \<open>The model selection logic: the keys to iterate and \<open>targetModel\<close>.\<close>

definition select_keys :: "gemini_key list \<Rightarrow> string \<Rightarrow> gemini_key list \<times> string" where
  "select_keys ks preferredModel =
     (let capableKeys = filter (supports preferredModel) ks;
          (keys1, targetModel) =
             (if preferredModel \<noteq> ''auto''
              then (if capableKeys \<noteq> [] then (capableKeys, preferredModel) else (ks, ''auto''))
              else (ks, preferredModel))
      in if targetModel = ''auto'' then (sort_keys_by_score keys1, targetModel)
         else (keys1, targetModel))"

definition fallback_models :: "string list" where
  "fallback_models =
     [''gemini-3.0-flash-preview'', ''gemini-2.0-flash-exp'', ''gemini-1.5-pro'', ''gemini-1.5-flash'']"

definition key_models :: "gemini_key \<Rightarrow> string list" where
  "key_models k =
     (case available_models k of
        Models_null \<Rightarrow> fallback_models
      | Models_unparseable \<Rightarrow> []
      | Models_not_array \<Rightarrow> []
      | Models_names ns \<Rightarrow> sort_models_by_score ns
      | Models_objects ns \<Rightarrow> sort_models_by_score ns)"

fun add_unique :: "string list \<Rightarrow> string list \<Rightarrow> string list" where
  "add_unique cands [] = cands"
| "add_unique cands (m # ms) = add_unique (if m \<in> set cands then cands else cands @ [m]) ms"

text \<open>The candidate models of one key, in the order they are tried.\<close>

definition candidates :: "string \<Rightarrow> string \<Rightarrow> gemini_key \<Rightarrow> string list" where
  "candidates preferredModel targetModel k =
     (let c1 = (if preferredModel \<noteq> ''auto'' \<and> targetModel \<noteq> ''auto''
                then [preferredModel] else []);
          c2 = (if targetModel = ''auto'' \<and> truthy (best_model k)
                then c1 @ [str_of (best_model k)] else c1);
          c3 = add_unique c2 (key_models k)
      in if c3 = [] then [''gemini-3.0-flash-preview'', ''gemini-1.5-flash''] else c3)"


section \<open>Context assembler\<close>

definition DEFAULT_SYSTEM_PROMPT :: string where
  "DEFAULT_SYSTEM_PROMPT =
     ''You are a helpful, friendly assistant. Respond naturally and in character. Do not sound robotic or generic.''"

definition getActivePersonality :: "world \<Rightarrow> string \<Rightarrow> string" where
  "getActivePersonality w userId =
     (case find (\<lambda>p. pers_user_id p = Some userId \<and> pers_is_active p = 1) (personalities w) of
        Some row \<Rightarrow> if system_prompt row \<noteq> [] then system_prompt row else DEFAULT_SYSTEM_PROMPT
      | None \<Rightarrow> DEFAULT_SYSTEM_PROMPT)"

text \<open>Whether the integration of this platform shares active memories; the memory
  query asks this for every platform but the playground and the web.\<close>

definition integration_shares :: "world \<Rightarrow> string \<Rightarrow> string \<Rightarrow> bool" where
  "integration_shares w userId platform =
     (case find (\<lambda>i. pi_user_id i = Some userId \<and> pi_platform i = platform)
             (platform_integrations w) of
        Some integration \<Rightarrow> share_active_memory integration = 1
      | None \<Rightarrow> False)"

definition share_for_query :: "world \<Rightarrow> string \<Rightarrow> string \<Rightarrow> bool" where
  "share_for_query w userId platform =
     (platform \<noteq> ''playground'' \<and> platform \<noteq> ''web'' \<and> integration_shares w userId platform)"

text \<open>The WHERE clause of the memory query. A comparison with a NULL column or with a
  NULL parameter is not true.\<close>

definition memory_selected ::
    "string \<Rightarrow> string \<Rightarrow> string option \<Rightarrow> bool \<Rightarrow> user_memory \<Rightarrow> bool" where
  "memory_selected userId platform senderId share m =
     (mem_user_id m = userId \<and>
      (memory_type m = Some ''core''
       \<or> memory_type m = None
       \<or> (memory_type m = Some ''active_learning'' \<and>
           ((mem_platform m = Some platform \<and>
              ((senderId \<noteq> None \<and> external_id m = senderId) \<or> external_id m = None))
            \<or> (share \<and> mem_platform m = None)))))"

text \<open>\<open>ORDER BY created_at DESC LIMIT 20\<close>.\<close>

definition query_memories ::
    "world \<Rightarrow> string \<Rightarrow> string \<Rightarrow> string option \<Rightarrow> bool \<Rightarrow> user_memory list" where
  "query_memories w userId platform senderId share =
     take 20 (rev (sort_key mem_created_at
       (filter (memory_selected userId platform senderId share) (user_memories w))))"

definition build_system_instruction ::
    "world \<Rightarrow> string \<Rightarrow> string \<Rightarrow> chat_type \<Rightarrow> string option \<Rightarrow> string option
      \<Rightarrow> system_instruction" where
  "build_system_instruction w userId platform chatType senderId senderName =
     (let memories = query_memories w userId platform senderId (share_for_query w userId platform);
          coreMemories = filter (\<lambda>m. memory_type m = Some ''core'' \<or> \<not> truthy (memory_type m)) memories;
          activeMemories = filter (\<lambda>m. memory_type m = Some ''active_learning'') memories
      in \<lparr>si_persona = getActivePersonality w userId,
          si_core_memories = map mem_content coreMemories,
          si_active_memories = map mem_content activeMemories,
          si_knowledge_bank = knowledge_bank w,
          si_response_protocol = (platform \<noteq> ''playground''),
          si_group_privacy = (if platform \<noteq> ''playground'' \<and> chatType = Group
                              then Some (or_else senderName ''User'') else None)\<rparr>)"

definition CONTEXT_MESSAGE_LIMIT :: nat where
  "CONTEXT_MESSAGE_LIMIT = 10"

definition recent_rows :: "(chat_log \<Rightarrow> bool) \<Rightarrow> nat \<Rightarrow> world \<Rightarrow> chat_log list" where
  "recent_rows cond limit w = take limit (rev (sort_key log_created_at (filter cond (chat_logs w))))"

definition getRecentChatLogs ::
    "world \<Rightarrow> string \<Rightarrow> string \<Rightarrow> nat \<Rightarrow> string \<Rightarrow> chat_type \<Rightarrow> string option
      \<Rightarrow> string option \<Rightarrow> (string \<times> string) list" where
  "getRecentChatLogs w userId chatId limit platform chatType groupId senderId =
     rev (if chatType = Group \<and> truthy groupId \<and> platform \<noteq> []
          then map (\<lambda>r. (log_role r,
                         if log_role r = ''user'' \<and> truthy (log_sender_name r)
                         then ''['' @ str_of (log_sender_name r) @ '']: '' @ log_content r
                         else log_content r))
                 (recent_rows (\<lambda>r. log_user_id r = userId \<and> log_group_id r = groupId
                                    \<and> log_platform r = platform) limit w)
          else if chatType = Private \<and> truthy senderId \<and> platform \<noteq> []
                  \<and> platform \<noteq> ''playground''
          then map (\<lambda>r. (log_role r, log_content r))
                 (recent_rows (\<lambda>r. log_user_id r = userId \<and> log_platform r = platform
                                    \<and> log_sender_id r = senderId) limit w)
          else map (\<lambda>r. (log_role r, log_content r))
                 (recent_rows (\<lambda>r. log_user_id r = userId \<and> log_chat_id r = chatId) limit w))"

text \<open>The history sent to the provider: roles are normalised and leading model
  messages are dropped.\<close>

definition build_history :: "(string \<times> string) list \<Rightarrow> (string \<times> string) list" where
  "build_history recentMessages =
     dropWhile (\<lambda>m. fst m = ''model'')
       (map (\<lambda>m. (if fst m = ''model'' then ''model'' else ''user'', snd m)) recentMessages)"

text \<open>The arguments of a turn, with the defaults of the destructured metadata applied
  by \<open>turn_platform\<close> and \<open>turn_chat_type\<close>.\<close>

record turn_input =
  in_userId :: string
  in_chatId :: string
  in_prompt :: string
  in_media :: "(string \<times> string) list"
  in_platform :: "string option"
  in_chatType :: "chat_type option"
  in_groupId :: "string option"
  in_senderId :: "string option"
  in_senderName :: "string option"
  in_modelOverride :: "string option"

definition turn_platform :: "turn_input \<Rightarrow> string" where
  "turn_platform i = (case in_platform i of None \<Rightarrow> ''playground'' | Some p \<Rightarrow> p)"

definition turn_chat_type :: "turn_input \<Rightarrow> chat_type" where
  "turn_chat_type i = (case in_chatType i of None \<Rightarrow> Private | Some t \<Rightarrow> t)"

definition preferred_model :: "world \<Rightarrow> turn_input \<Rightarrow> string" where
  "preferred_model w i =
     or_else (in_modelOverride i)
       (or_else (case get_settings w (in_userId i) of
                   None \<Rightarrow> None
                 | Some s \<Rightarrow> us_preferred_model s) ''auto'')"

text \<open>What is fixed before the cascade starts.\<close>

record turn_context =
  cx_input :: turn_input
  cx_customTools :: "tool list"
  cx_declarations :: "function_declaration list"
  cx_request :: request

definition build_context :: "world \<Rightarrow> turn_input \<Rightarrow> turn_context" where
  "build_context w i =
     (let userId = in_userId i;
          platform = turn_platform i;
          settings = get_settings w userId;
          custom = customTools w userId;
          decls = functionDeclarations settings (is_admin w userId platform (in_senderId i)) custom
      in \<lparr>cx_input = i,
          cx_customTools = custom,
          cx_declarations = decls,
          cx_request =
            \<lparr>req_system_instruction =
               build_system_instruction w userId platform (turn_chat_type i) (in_senderId i)
                 (in_senderName i),
             req_tools = decls,
             req_temperature =
               (case settings of
                  None \<Rightarrow> 7 / 10
                | Some s \<Rightarrow> (case us_temperature s of
                               None \<Rightarrow> 7 / 10
                             | Some t \<Rightarrow> if t = 0 then 7 / 10 else t)),
             req_max_output_tokens =
               (case settings of
                  None \<Rightarrow> 2048
                | Some s \<Rightarrow> (case us_max_output_tokens s of
                               None \<Rightarrow> 2048
                             | Some n \<Rightarrow> if n = 0 then 2048 else n)),
             req_history =
               build_history (getRecentChatLogs w userId (in_chatId i) CONTEXT_MESSAGE_LIMIT
                 platform (turn_chat_type i) (in_groupId i) (in_senderId i)),
             req_prompt = in_prompt i,
             req_media = in_media i\<rparr>\<rparr>)"

section \<open>Tool executor\<close>

definition fresh_id :: "env \<Rightarrow> world \<Rightarrow> string \<times> world" where
  "fresh_id e w = (uuidv4 e (uuid_count w), w\<lparr>uuid_count := Suc (uuid_count w)\<rparr>)"

text \<open>A text between single quotes, as the result messages name a tool.\<close>

definition quoted :: "string \<Rightarrow> string" where
  "quoted s = [CHR 0x27] @ s @ [CHR 0x27]"

text \<open>The calculator: the allow-list \<open>/^[0-9+\-*/().\s]*$/\<close> is tested on the
  expression as text, and only an expression that passes reaches \<open>eval\<close>.\<close>

definition allowed_char :: "char \<Rightarrow> bool" where
  "allowed_char c = (is_digit c \<or> c \<in> set ''+-*/().'' \<or> is_space c)"

definition calculator :: "env \<Rightarrow> tool_call \<Rightarrow> world \<Rightarrow> string \<times> world" where
  "calculator e c w =
     (let expression = str_of (arg ''expression'' c) in
      if list_all allowed_char expression
      then ((case js_eval e expression of Inr v \<Rightarrow> v | Inl message \<Rightarrow> message),
            w\<lparr>eval_log := eval_log w @ [expression]\<rparr>)
      else (''Invalid characters in expression'', w))"

text \<open>\<open>installTool\<close>: the identifier is drawn first; the driver refuses to bind an
  undefined value, which the function reports as text.\<close>

definition installTool :: "env \<Rightarrow> string \<Rightarrow> tool_call \<Rightarrow> world \<Rightarrow> string \<times> world" where
  "installTool e userId c w =
     (let (id, w1) = fresh_id e w in
      case (arg ''name'' c, arg ''endpoint'' c, arg ''description'' c) of
        (Some name, Some endpoint, Some description) \<Rightarrow>
          (json_object [(''success'', ''true''), (''id'', json_str id),
             (''message'', json_str (''Tool '' @ quoted name @ '' installed successfully.''))],
           w1\<lparr>tools := tools w1 @
             [\<lparr>tool_id = id, tool_name = name, tool_endpoint = endpoint,
               tool_api_key = arg ''apiKey'' c, tool_description = Some description,
               is_active = 1, is_admin_only = 0, tool_user_id = Some userId,
               tool_method = Some (case arg ''method'' c of None \<Rightarrow> ''POST'' | Some m \<Rightarrow> m),
               tool_headers = Some (case arg ''headers'' c of None \<Rightarrow> ''{}'' | Some h \<Rightarrow> h),
               parameter_schema =
                 (case arg ''payloadSchema'' c of
                    None \<Rightarrow> Schema_empty
                  | Some p \<Rightarrow> if p = ''{}'' then Schema_empty else Schema_value p),
               auth_type = arg ''authType'' c,
               auth_param_name = arg ''authParamName'' c\<rparr>]\<rparr>)
      | _ \<Rightarrow> (''Installation error: '' @ bind_error e, w1))"

definition deleteTool :: "env \<Rightarrow> string \<Rightarrow> tool_call \<Rightarrow> world \<Rightarrow> string \<times> world" where
  "deleteTool e userId c w =
     (case arg ''name'' c of
        None \<Rightarrow> (''Deletion error: '' @ bind_error e, w)
      | Some name \<Rightarrow>
          (let doomed = (\<lambda>t. tool_name t = name \<and> tool_user_id t = Some userId) in
           if list_ex doomed (tools w)
           then (json_object [(''success'', ''true''),
                   (''message'', json_str (''Tool '' @ quoted name @ '' deleted successfully.''))],
                 w\<lparr>tools := filter (\<lambda>t. \<not> doomed t) (tools w)\<rparr>)
           else (json_object [(''success'', ''false''),
                   (''message'',
                    json_str (''Tool '' @ quoted name @ '' not found or permission denied.''))],
                 w)))"

definition manageTools ::
    "env \<Rightarrow> string \<Rightarrow> function_declaration list \<Rightarrow> tool_call \<Rightarrow> world \<Rightarrow> string \<times> world" where
  "manageTools e userId decls c w =
     (let action = arg ''action'' c in
      if action = Some ''list''
      then (''Currently active tools:'' @ [CHR 0x0A] @
              join_lines (map (\<lambda>t. fd_name t @ '': '' @ null_str (fd_description t)) decls), w)
      else if action = Some ''add''
      then (if \<not> truthy (arg ''name'' c) \<or> \<not> truthy (arg ''endpoint'' c)
            then (''Error: Name and endpoint are required for adding a tool.'', w)
            else (let (toolId, w1) = fresh_id e w; name = str_of (arg ''name'' c) in
                  (''Tool '' @ quoted name @ '' successfully registered.'',
                   w1\<lparr>tools := tools w1 @
                     [\<lparr>tool_id = toolId, tool_name = name,
                       tool_endpoint = str_of (arg ''endpoint'' c),
                       tool_api_key = None,
                       tool_description = Some (or_else (arg ''description'' c) []),
                       is_active = 1, is_admin_only = 0, tool_user_id = Some userId,
                       tool_method = Some ''POST'', tool_headers = Some ''{}'',
                       parameter_schema = Schema_empty,
                       auth_type = None, auth_param_name = None\<rparr>]\<rparr>)))
      else if action = Some ''remove''
      then (if \<not> truthy (arg ''id'' c)
            then (''Error: ID is required for removing a tool.'', w)
            else (let id = str_of (arg ''id'' c) in
                  (''Tool '' @ quoted id @ '' successfully removed.'',
                   w\<lparr>tools := filter (\<lambda>t. \<not> (tool_id t = id \<and> tool_user_id t = Some userId))
                                 (tools w)\<rparr>)))
      else (''Unknown action: '' @ str_of action, w))"

text \<open>\<open>saveMemory\<close>: the row is written at once. Sharing is looked up for every
  platform but the web. A missing content makes the insert throw, after the identifier
  was drawn.\<close>

definition saveMemory ::
    "env \<Rightarrow> turn_input \<Rightarrow> tool_call \<Rightarrow> world \<Rightarrow> (string + string) \<times> world" where
  "saveMemory e i c w =
     (let (id, w1) = fresh_id e w;
          platform = turn_platform i;
          shareActiveMemory = (platform \<noteq> ''web'' \<and> integration_shares w1 (in_userId i) platform)
      in case arg ''content'' c of
           None \<Rightarrow> (Inl (bind_error e), w1)
         | Some content \<Rightarrow>
             (Inr ''Memory saved to Active Learning storage.'',
              w1\<lparr>user_memories := user_memories w1 @
                [\<lparr>mem_id = id, mem_user_id = in_userId i, mem_content = content,
                  mem_created_at = current_timestamp e,
                  memory_type = Some ''active_learning'',
                  mem_platform = (if shareActiveMemory then None else Some platform),
                  external_id = (if shareActiveMemory then None else in_senderId i)\<rparr>]\<rparr>))"

definition respond :: "string \<Rightarrow> string \<Rightarrow> string + function_response" where
  "respond n content = Inr \<lparr>fr_name = n, fr_response = Content content\<rparr>"

text \<open>
  One function call of a response, dispatched by name in the order of the source: the
  built-in helpers, then a custom tool of that name, then \<open>manageTools\<close> and
  \<open>saveMemory\<close>. The result is the function response, or the message of what the
  handler throws.
\<close>

definition dispatch ::
    "env \<Rightarrow> turn_context \<Rightarrow> tool_call \<Rightarrow> world \<Rightarrow> (string + function_response) \<times> world" where
  "dispatch e cx c w =
     (let n = call_name c;
          userId = in_userId (cx_input cx)
      in if n = ''webSearch'' then (respond n (webSearch e (arg ''query'' c)), w)
         else if n = ''getWeather'' then (respond n (getWeather e (arg ''location'' c)), w)
         else if n = ''calculator''
         then (let (result, w1) = calculator e c w in (respond n result, w1))
         else if n = ''scrapeUrl'' then (respond n (simpleScrape e (arg ''url'' c)), w)
         else if n = ''githubRepo''
         then (respond n (getGithubRepo e (arg ''owner'' c) (arg ''repo'' c)), w)
         else if n = ''currencyConverter''
         then (respond n (convertCurrency e (arg ''amount'' c) (arg ''from'' c) (arg ''to'' c)), w)
         else if n = ''installTool''
         then (let (result, w1) = installTool e userId c w in (respond n result, w1))
         else if n = ''deleteTool''
         then (let (result, w1) = deleteTool e userId c w in (respond n result, w1))
         else if n = ''sendMedia''
         then (case arg ''url'' c of
                 None \<Rightarrow>
                   (Inl (''Cannot read properties of undefined (reading ''
                           @ quoted ''startsWith'' @ '')''), w)
               | Some url \<Rightarrow>
                   (let finalPath = (if starts_with url ''http''
                                     then downloadMedia e url (arg ''mediaType'' c) else url)
                    in (respond n (''[MEDIA_SEND:'' @ finalPath @ ''|''
                                     @ str_of (arg ''mediaType'' c) @ '']''), w)))
         else (case find (\<lambda>t. tool_name t = n) (cx_customTools cx) of
                 Some customTool \<Rightarrow>
                   (case call_webhook e customTool (call_args c) of
                      Inr text \<Rightarrow> (respond n (take 5000 text), w)
                    | Inl message \<Rightarrow> (Inr \<lparr>fr_name = n, fr_response = Error message\<rparr>, w))
               | None \<Rightarrow>
                   if n = ''manageTools''
                   then (let (result, w1) = manageTools e userId (cx_declarations cx) c w
                         in (respond n result, w1))
                   else if n = ''saveMemory''
                   then (case saveMemory e (cx_input cx) c w of
                           (Inr result, w1) \<Rightarrow> (respond n result, w1)
                         | (Inl message, w1) \<Rightarrow> (Inl message, w1))
                   else (respond n ''Unknown tool.'', w)))"

text \<open>The callback of \<open>calls.map\<close>: the call is noted in the log of dispatched calls and
  handled.\<close>

definition exec_tool ::
    "env \<Rightarrow> turn_context \<Rightarrow> tool_call \<Rightarrow> world \<Rightarrow> (string + function_response) \<times> world" where
  "exec_tool e cx c w = dispatch e cx c (w\<lparr>tool_log := tool_log w @ [c]\<rparr>)"

text \<open>
  \<open>Promise.all(calls.map(...))\<close>: every handler is started in the order of the calls, and
  what it writes to the tables is written before the next one starts. The promise is
  rejected with the first thrown message, and fulfilled with all the function responses
  otherwise.
\<close>

fun run_tools ::
    "env \<Rightarrow> turn_context \<Rightarrow> tool_call list \<Rightarrow> world \<Rightarrow> (string + function_response) list \<times> world"
where
  "run_tools e cx [] w = ([], w)"
| "run_tools e cx (c # cs) w =
     (let (r, w1) = exec_tool e cx c w;
          (rs, w2) = run_tools e cx cs w1
      in (r # rs, w2))"

fun promise_all :: "(string + 'a) list \<Rightarrow> string + 'a list" where
  "promise_all [] = Inr []"
| "promise_all (Inl message # rs) = Inl message"
| "promise_all (Inr v # rs) =
     (case promise_all rs of Inl message \<Rightarrow> Inl message | Inr vs \<Rightarrow> Inr (v # vs))"

section \<open>Conversation engine (chatWithGemini)\<close>

text \<open>The variables of the cascade, with the world they run in.\<close>

record turn_state =
  ts_world :: world
  responseText :: string
  usedKeyId :: string
  lastError :: "string option"
  rawResponse :: string
  usedModelName :: string
  usageMetadata :: "string option"

definition log_call :: "provider_call \<Rightarrow> world \<Rightarrow> world" where
  "log_call pc w = w\<lparr>provider_log := provider_log w @ [pc]\<rparr>"

text \<open>The catch block of an attempt.\<close>

definition fail :: "string \<Rightarrow> turn_state \<Rightarrow> turn_state \<times> bool" where
  "fail message st = (st\<lparr>lastError := Some message\<rparr>, False)"

text \<open>The end of the try block: the key is recorded as used and its \<open>last_used_at\<close> is
  set.\<close>

definition succeed :: "env \<Rightarrow> gemini_key \<Rightarrow> string \<Rightarrow> turn_state \<Rightarrow> turn_state \<times> bool" where
  "succeed e k modelName st =
     (st\<lparr>usedKeyId := key_id k, usedModelName := modelName,
         ts_world := (ts_world st)\<lparr>gemini_keys :=
           map (\<lambda>r. if key_id r = key_id k then r\<lparr>last_used_at := Some (now_iso e)\<rparr> else r)
             (gemini_keys (ts_world st))\<rparr>\<rparr>, True)"

definition TOOL_RESPONSE_SEPARATOR :: string where
  "TOOL_RESPONSE_SEPARATOR = [CHR 0x0A] @ ''---TOOL RESPONSE---'' @ [CHR 0x0A]"

text \<open>
  One candidate: the body of the inner loop. The flag says whether the try block ran to
  its end (the \<open>break\<close>); otherwise the catch block has recorded the error.
\<close>

definition attempt ::
    "env \<Rightarrow> turn_context \<Rightarrow> gemini_key \<Rightarrow> string \<Rightarrow> turn_state \<Rightarrow> turn_state \<times> bool" where
  "attempt e cx k modelName st0 =
     (let st = st0\<lparr>ts_world := log_call (First_call (key_id k) modelName) (ts_world st0)\<rparr> in
      case sendMessage e k modelName (cx_request cx) of
        Inl message \<Rightarrow> fail message st
      | Inr result \<Rightarrow>
          (let st1 = st\<lparr>rawResponse := resp_json result,
                        usageMetadata := (case resp_usage result of
                                            Some u \<Rightarrow> Some u
                                          | None \<Rightarrow> usageMetadata st)\<rparr>
           in if resp_function_calls result \<noteq> []
              then (let (rs, w1) = run_tools e cx (resp_function_calls result) (ts_world st1);
                        st2 = st1\<lparr>ts_world := w1\<rparr>
                    in case promise_all rs of
                         Inl message \<Rightarrow> fail message st2
                       | Inr functionResponses \<Rightarrow>
                           (let st3 = st2\<lparr>ts_world :=
                                  log_call (Followup_call (key_id k) modelName functionResponses) w1\<rparr>
                            in case sendFunctionResponses e k modelName (cx_request cx)
                                      functionResponses of
                                 Inl message \<Rightarrow> fail message st3
                               | Inr toolResult \<Rightarrow>
                                   succeed e k modelName
                                     (st3\<lparr>rawResponse := rawResponse st3 @ TOOL_RESPONSE_SEPARATOR
                                                             @ resp_json toolResult,
                                          responseText := resp_text toolResult\<rparr>)))
              else succeed e k modelName (st1\<lparr>responseText := resp_text result\<rparr>)))"

text \<open>The inner loop over the candidate models of one key.\<close>

fun try_candidates ::
    "env \<Rightarrow> turn_context \<Rightarrow> gemini_key \<Rightarrow> string list \<Rightarrow> turn_state \<Rightarrow> turn_state" where
  "try_candidates e cx k [] st = st"
| "try_candidates e cx k (m # ms) st =
     (let (st1, done) = attempt e cx k m st in
      if done then st1 else try_candidates e cx k ms st1)"

text \<open>The outer loop over the keys: it stops when \<open>responseText\<close> is not empty.\<close>

fun try_keys ::
    "env \<Rightarrow> turn_context \<Rightarrow> string \<Rightarrow> string \<Rightarrow> gemini_key list \<Rightarrow> turn_state \<Rightarrow> turn_state"
where
  "try_keys e cx preferredModel targetModel [] st = st"
| "try_keys e cx preferredModel targetModel (k # ks) st =
     (let st1 = try_candidates e cx k (candidates preferredModel targetModel k) st in
      if responseText st1 \<noteq> [] then st1
      else try_keys e cx preferredModel targetModel ks st1)"

definition initial_state :: "world \<Rightarrow> turn_state" where
  "initial_state w =
     \<lparr>ts_world = w, responseText = [], usedKeyId = [], lastError = None, rawResponse = [],
      usedModelName = [], usageMetadata = None\<rparr>"

definition appendChatLog ::
    "env \<Rightarrow> turn_input \<Rightarrow> string \<Rightarrow> string \<Rightarrow> string option \<Rightarrow> string option \<Rightarrow> world \<Rightarrow> world"
where
  "appendChatLog e i role content raw senderName w =
     (let (id, w1) = fresh_id e w in
      w1\<lparr>chat_logs := chat_logs w1 @
        [\<lparr>log_id = id, log_user_id = in_userId i, log_chat_id = in_chatId i,
          log_platform = turn_platform i, log_role = role, log_content = content,
          log_raw_response = raw, log_created_at = current_timestamp e,
          log_chat_type = turn_chat_type i, log_group_id = in_groupId i,
          log_sender_id = in_senderId i, log_sender_name = senderName\<rparr>]\<rparr>)"

text \<open>Modelled from the spec: \<open>savePlaygroundMessage\<close> (unifiedContext.ts) is not among
  the sources; it is taken to add one row to \<open>playground_history\<close>, the table of db.ts.\<close>

definition savePlaygroundMessage :: "string \<Rightarrow> string \<Rightarrow> string \<Rightarrow> string \<Rightarrow> world \<Rightarrow> world" where
  "savePlaygroundMessage chatId role content userId w =
     w\<lparr>playground_history := playground_history w @
       [\<lparr>pm_chat_id = chatId, pm_role = role, pm_content = content, pm_user_id = userId\<rparr>]\<rparr>"

text \<open>Step 5: the two chat log rows, the playground rows and the audit row.\<close>

definition write_logs :: "env \<Rightarrow> turn_input \<Rightarrow> turn_state \<Rightarrow> world" where
  "write_logs e i st =
     (let w1 = appendChatLog e i ''user'' (in_prompt i) None (in_senderName i) (ts_world st);
          w2 = appendChatLog e i ''model'' (responseText st) (Some (rawResponse st)) None w1;
          w3 = (if turn_platform i = ''playground''
                then savePlaygroundMessage (in_chatId i) ''assistant'' (responseText st) (in_userId i)
                       (savePlaygroundMessage (in_chatId i) ''user'' (in_prompt i) (in_userId i) w2)
                else w2)
      in w3\<lparr>bot_logs := bot_logs w3 @
           [\<lparr>bl_id = ''log_'' @ date_now e,
             bl_request_payload = (in_prompt i, in_chatId i),
             bl_response_payload = responseText st,
             bl_raw_response = rawResponse st,
             bl_api_key_used = usedKeyId st,
             bl_user_id = in_userId i,
             bl_chat_id = in_chatId i,
             bl_model_used = usedModelName st,
             bl_token_usage = usageMetadata st\<rparr>]\<rparr>)"

text \<open>What follows the loops: the two throws, then the logging and the return value.
  A thrown error is its message.\<close>

definition finalize ::
    "env \<Rightarrow> turn_input \<Rightarrow> turn_state \<Rightarrow> (string + string \<times> string) \<times> world" where
  "finalize e i st =
     (if responseText st = []
      then (Inl (''All API keys failed. Last error: '' @ null_str (lastError st)), ts_world st)
      else if trim (responseText st) = ''[NO_REPLY]''
      then (Inl ''[NO_REPLY]'', ts_world st)
      else (Inr (responseText st, usedKeyId st), write_logs e i st))"

text \<open>The state in which the cascade of a turn ends.\<close>

definition run_cascade :: "env \<Rightarrow> world \<Rightarrow> turn_input \<Rightarrow> turn_state" where
  "run_cascade e w i =
     (let preferredModel = preferred_model w i;
          (ks, targetModel) = select_keys (active_keys w (in_userId i)) preferredModel
      in try_keys e (build_context w i) preferredModel targetModel ks (initial_state w))"

definition chatWithGemini ::
    "env \<Rightarrow> world \<Rightarrow> turn_input \<Rightarrow> (string + string \<times> string) \<times> world" where
  "chatWithGemini e w i =
     (if active_keys w (in_userId i) = []
      then (Inl ''No active Gemini API keys found'', w)
      else finalize e i (run_cascade e w i))"

section \<open>The chat route (index.ts)\<close>

datatype http_reply =
    Reply_result string string
  | Reply_ignored
  | Reply_error string

text \<open>\<open>POST /api/bot/chat\<close>: the engine is called without metadata; an error whose
  message contains the sentinel is answered with \<open>{status: 'ignored', reason: 'NO_REPLY'}\<close>,
  any other error with status 500.\<close>

definition bot_chat_input ::
    "string \<Rightarrow> string \<Rightarrow> string option \<Rightarrow> (string \<times> string) list \<Rightarrow> turn_input" where
  "bot_chat_input userId prompt chatId processedMedia =
     \<lparr>in_userId = userId, in_chatId = or_else chatId ''default'', in_prompt = prompt,
      in_media = processedMedia, in_platform = None, in_chatType = None,
      in_groupId = None, in_senderId = None, in_senderName = None,
      in_modelOverride = None\<rparr>"

definition bot_chat ::
    "env \<Rightarrow> world \<Rightarrow> string \<Rightarrow> string \<Rightarrow> string option \<Rightarrow> (string \<times> string) list
      \<Rightarrow> http_reply \<times> world" where
  "bot_chat e w userId prompt chatId processedMedia =
     (case chatWithGemini e w (bot_chat_input userId prompt chatId processedMedia) of
        (Inr (response, keyId), w1) \<Rightarrow> (Reply_result response keyId, w1)
      | (Inl message, w1) \<Rightarrow>
          (if str_includes message ''[NO_REPLY]'' then Reply_ignored else Reply_error message, w1))"

section \<open>Observations on a run\<close>

text \<open>The (key, model) pairs of the first calls in a provider log: the attempts made, in
  order.\<close>

fun first_call_target :: "provider_call \<Rightarrow> (string \<times> string) option" where
  "first_call_target (First_call k m) = Some (k, m)"
| "first_call_target (Followup_call k m rs) = None"

definition attempted :: "provider_call list \<Rightarrow> (string \<times> string) list" where
  "attempted calls = List.map_filter first_call_target calls"

text \<open>What a tool handler leaves alone: the logs of the conversation and of the audit,
  the provider and tool logs, the keys and the integrations; and it only adds memories.\<close>

definition quiet :: "world \<Rightarrow> world \<Rightarrow> bool" where
  "quiet w w' \<longleftrightarrow>
     chat_logs w' = chat_logs w \<and> bot_logs w' = bot_logs w
     \<and> playground_history w' = playground_history w
     \<and> provider_log w' = provider_log w
     \<and> tool_log w' = tool_log w
     \<and> gemini_keys w' = gemini_keys w
     \<and> platform_integrations w' = platform_integrations w
     \<and> prefix (user_memories w) (user_memories w')"



section \<open>Sample surroundings\<close>

text \<open>A provider that is down, helpers that find nothing, and a store without rows: the
  starting point of the concrete scenarios below.\<close>

definition offline_env :: env where
  "offline_env =
     \<lparr>sendMessage = (\<lambda>k m r. Inl ''503 Service Unavailable''),
      sendFunctionResponses = (\<lambda>k m r fs. Inl ''503 Service Unavailable''),
      js_eval = (\<lambda>x. Inl ''Unexpected end of input''),
      webSearch = (\<lambda>q. ''No results found.''),
      getWeather = (\<lambda>l. ''Location not found.''),
      simpleScrape = (\<lambda>u. ''Failed to read page: fetch failed''),
      getGithubRepo = (\<lambda>ownr rp. ''GitHub error: fetch failed''),
      convertCurrency = (\<lambda>a f t. ''Currency error: fetch failed''),
      downloadMedia = (\<lambda>u t. u),
      call_webhook = (\<lambda>t a. Inl ''fetch failed''),
      uuidv4 = (\<lambda>n. ''uuid-'' @ replicate n (CHR ''i'')),
      now_iso = ''2024-03-01T12:00:00.000Z'',
      current_timestamp = ''2024-03-01 12:00:00'',
      date_now = ''1709294400000'',
      bind_error = ''SQLite3 can only bind numbers, strings, bigints, buffers, and null''\<rparr>"

definition empty_world :: world where
  "empty_world =
     \<lparr>gemini_keys = [], tools = [], user_memories = [], chat_logs = [], bot_logs = [],
      playground_history = [], platform_integrations = [], platform_admins = [],
      settings_table = [], personalities = [], knowledge_bank = [], uuid_count = 0,
      provider_log = [], tool_log = [], eval_log = []\<rparr>"

definition sample_input :: turn_input where
  "sample_input =
     \<lparr>in_userId = ''u1'', in_chatId = ''c1'', in_prompt = ''hello'', in_media = [],
      in_platform = Some ''telegram'', in_chatType = Some Private, in_groupId = None,
      in_senderId = Some ''s1'', in_senderName = Some ''Ann'', in_modelOverride = None\<rparr>"



definition key_old :: gemini_key where
  "key_old =
     \<lparr>key_id = ''k-old'', key_secret = ''secret-1'', key_status = Some ''active'',
      last_used_at = Some ''2024-02-01T08:00:00.000Z'', key_user_id = Some ''u1'',
      best_model = Some ''gemini-1.5-flash'',
      available_models = Models_objects [''gemini-1.5-flash'']\<rparr>"

definition key_new :: gemini_key where
  "key_new =
     \<lparr>key_id = ''k-new'', key_secret = ''secret-2'', key_status = Some ''active'',
      last_used_at = Some ''2024-02-20T08:00:00.000Z'', key_user_id = Some ''u1'',
      best_model = Some ''gemini-2.5-pro'',
      available_models = Models_objects [''gemini-2.5-pro'']\<rparr>"

definition two_key_world :: world where
  "two_key_world = empty_world\<lparr>gemini_keys := [key_old, key_new]\<rparr>"

definition no_reply_env :: env where
  "no_reply_env =
     offline_env\<lparr>sendMessage := (\<lambda>k m r. Inr \<lparr>resp_text = ''[NO_REPLY]'',
        resp_function_calls = [], resp_usage = None, resp_json = ''{}''\<rparr>)\<rparr>"

definition core_memory :: user_memory where
  "core_memory =
     \<lparr>mem_id = ''m1'', mem_user_id = ''u1'', mem_content = ''Answer in English.'',
      mem_created_at = ''2024-01-05 10:00:00'', memory_type = Some ''core'',
      mem_platform = None, external_id = None\<rparr>"

definition own_memory :: user_memory where
  "own_memory =
     \<lparr>mem_id = ''m2'', mem_user_id = ''u1'', mem_content = ''Ann likes tea.'',
      mem_created_at = ''2024-01-06 10:00:00'', memory_type = Some ''active_learning'',
      mem_platform = Some ''telegram'', external_id = Some ''s1''\<rparr>"

definition other_sender_memory :: user_memory where
  "other_sender_memory =
     \<lparr>mem_id = ''m3'', mem_user_id = ''u1'', mem_content = ''Bob likes coffee.'',
      mem_created_at = ''2024-01-07 10:00:00'', memory_type = Some ''active_learning'',
      mem_platform = Some ''telegram'', external_id = Some ''s2''\<rparr>"

definition platform_wide_memory :: user_memory where
  "platform_wide_memory =
     \<lparr>mem_id = ''m4'', mem_user_id = ''u1'', mem_content = ''The group meets on Fridays.'',
      mem_created_at = ''2024-01-08 10:00:00'', memory_type = Some ''active_learning'',
      mem_platform = Some ''telegram'', external_id = None\<rparr>"

definition memory_world :: world where
  "memory_world =
     empty_world\<lparr>user_memories :=
       [core_memory, own_memory, other_sender_memory, platform_wide_memory]\<rparr>"

definition foreign_tool :: tool where
  "foreign_tool =
     \<lparr>tool_id = ''t1'', tool_name = ''crm_lookup'', tool_endpoint = ''https://crm.example/api'',
      tool_api_key = Some ''secret-of-u2'', tool_description = Some ''Look up a customer.'',
      is_active = 1, is_admin_only = 0, tool_user_id = Some ''u2'',
      tool_method = Some ''POST'', tool_headers = Some ''{}'', parameter_schema = Schema_empty,
      auth_type = Some ''bearer'', auth_param_name = None\<rparr>"

definition foreign_tool_world :: world where
  "foreign_tool_world = two_key_world\<lparr>tools := [foreign_tool]\<rparr>"







section \<open>Properties of the model scorer\<close>






section \<open>Properties of the calculator\<close>




section \<open>What the tool round and the cascade leave alone\<close>

lemma quiet_refl: "quiet w w"
  by (simp add: quiet_def)

lemma quiet_trans: "quiet w w1 \<Longrightarrow> quiet w1 w2 \<Longrightarrow> quiet w w2"
  by (auto simp add: quiet_def)

lemma quiet_calculator: "quiet w (snd (calculator e c w))"
  by (simp add: calculator_def quiet_def Let_def)

lemma quiet_installTool: "quiet w (snd (installTool e u c w))"
  by (simp add: installTool_def fresh_id_def quiet_def Let_def split: option.splits)

lemma quiet_deleteTool: "quiet w (snd (deleteTool e u c w))"
  by (simp add: deleteTool_def quiet_def Let_def split: option.splits)

lemma quiet_manageTools: "quiet w (snd (manageTools e u d c w))"
  by (simp add: manageTools_def fresh_id_def quiet_def Let_def)

lemma quiet_saveMemory: "quiet w (snd (saveMemory e i c w))"
  by (simp add: saveMemory_def fresh_id_def quiet_def Let_def split: option.splits)

lemma option_case_const: "(case x of None \<Rightarrow> a | Some y \<Rightarrow> a) = a"
  by (cases x) simp_all

lemma sum_case_const: "(case x of Inl y \<Rightarrow> a | Inr z \<Rightarrow> a) = a"
  by (cases x) simp_all

lemma quiet_dispatch: "quiet w (snd (dispatch e cx c w))"
  by (simp add: dispatch_def Let_def case_prod_beta quiet_refl quiet_calculator quiet_installTool
        quiet_deleteTool quiet_manageTools quiet_saveMemory
        if_distrib [of snd] if_distrib [of "quiet w"]
        option.case_distrib [of snd] option.case_distrib [of "quiet w"]
        sum.case_distrib [of snd] sum.case_distrib [of "quiet w"]
        option_case_const sum_case_const
      cong: if_cong option.case_cong sum.case_cong del: if_split)

lemma quiet_exec_tool:
  "quiet (w\<lparr>tool_log := tool_log w @ [c]\<rparr>) (snd (exec_tool e cx c w))"
  unfolding exec_tool_def by (rule quiet_dispatch)

lemma quiet_shift:
  assumes a: "quiet (w\<lparr>tool_log := l\<rparr>) w1"
    and b: "quiet (w1\<lparr>tool_log := tool_log w1 @ cs\<rparr>) w2"
  shows "quiet (w\<lparr>tool_log := l @ cs\<rparr>) w2"
proof -
  from a have p1: "prefix (user_memories w) (user_memories w1)" by (simp add: quiet_def)
  from b have p2: "prefix (user_memories w1) (user_memories w2)" by (simp add: quiet_def)
  have p: "prefix (user_memories w) (user_memories w2)"
    by (rule prefix_order.trans [OF p1 p2])
  show ?thesis using a b p by (simp add: quiet_def)
qed

lemma snd_run_tools_Cons:
  "snd (run_tools e cx (c # cs) w) = snd (run_tools e cx cs (snd (exec_tool e cx c w)))"
  by (simp add: case_prod_beta Let_def)

lemma quiet_run_tools:
  "quiet (w\<lparr>tool_log := tool_log w @ cs\<rparr>) (snd (run_tools e cx cs w))"
proof (induction cs arbitrary: w)
  case Nil
  show ?case by (simp add: quiet_def)
next
  case (Cons c cs)
  have "quiet (w\<lparr>tool_log := (tool_log w @ [c]) @ cs\<rparr>)
          (snd (run_tools e cx cs (snd (exec_tool e cx c w))))"
    using quiet_exec_tool Cons.IH by (rule quiet_shift)
  then show ?case unfolding snd_run_tools_Cons by simp
qed


lemma try_candidates_invariant:
  assumes step: "\<And>m st. P st \<Longrightarrow> P (fst (attempt e cx k m st))"
    and init: "P st"
  shows "P (try_candidates e cx k ms st)"
  using init
proof (induction ms arbitrary: st)
  case Nil
  then show ?case by simp
next
  case (Cons m ms)
  have "P (fst (attempt e cx k m st))" using Cons.prems by (rule step)
  then show ?case using Cons.IH by (simp add: case_prod_beta)
qed

lemma try_keys_invariant:
  assumes step: "\<And>k m st. P st \<Longrightarrow> P (fst (attempt e cx k m st))"
    and init: "P st"
  shows "P (try_keys e cx p t ks st)"
  using init
proof (induction ks arbitrary: st)
  case Nil
  then show ?case by simp
next
  case (Cons k ks)
  have "P (try_candidates e cx k (candidates p t k) st)"
    using step Cons.prems by (rule try_candidates_invariant)
  then show ?case using Cons.IH by (simp add: Let_def)
qed

text \<open>The five ways an attempt can go.\<close>

lemma attempt_cases:
  fixes e cx k m st
  defines "st1 \<equiv> st\<lparr>ts_world := log_call (First_call (key_id k) m) (ts_world st)\<rparr>"
  obtains
    (first_call_throws) message where
      "sendMessage e k m (cx_request cx) = Inl message"
      "attempt e cx k m st = fail message st1"
  | (plain_answer) result where
      "sendMessage e k m (cx_request cx) = Inr result"
      "resp_function_calls result = []"
      "attempt e cx k m st =
         succeed e k m (st1\<lparr>rawResponse := resp_json result,
           usageMetadata := (case resp_usage result of Some u \<Rightarrow> Some u | None \<Rightarrow> usageMetadata st),
           responseText := resp_text result\<rparr>)"
  | (handler_throws) result rs w1 message where
      "sendMessage e k m (cx_request cx) = Inr result"
      "resp_function_calls result \<noteq> []"
      "run_tools e cx (resp_function_calls result) (ts_world st1) = (rs, w1)"
      "promise_all rs = Inl message"
      "attempt e cx k m st =
         fail message (st1\<lparr>rawResponse := resp_json result,
           usageMetadata := (case resp_usage result of Some u \<Rightarrow> Some u | None \<Rightarrow> usageMetadata st),
           ts_world := w1\<rparr>)"
  | (followup_throws) result rs w1 frs message where
      "sendMessage e k m (cx_request cx) = Inr result"
      "resp_function_calls result \<noteq> []"
      "run_tools e cx (resp_function_calls result) (ts_world st1) = (rs, w1)"
      "promise_all rs = Inr frs"
      "sendFunctionResponses e k m (cx_request cx) frs = Inl message"
      "attempt e cx k m st =
         fail message (st1\<lparr>rawResponse := resp_json result,
           usageMetadata := (case resp_usage result of Some u \<Rightarrow> Some u | None \<Rightarrow> usageMetadata st),
           ts_world := log_call (Followup_call (key_id k) m frs) w1\<rparr>)"
  | (followup_answer) result rs w1 frs toolResult where
      "sendMessage e k m (cx_request cx) = Inr result"
      "resp_function_calls result \<noteq> []"
      "run_tools e cx (resp_function_calls result) (ts_world st1) = (rs, w1)"
      "promise_all rs = Inr frs"
      "sendFunctionResponses e k m (cx_request cx) frs = Inr toolResult"
      "attempt e cx k m st =
         succeed e k m (st1\<lparr>
           usageMetadata := (case resp_usage result of Some u \<Rightarrow> Some u | None \<Rightarrow> usageMetadata st),
           ts_world := log_call (Followup_call (key_id k) m frs) w1,
           rawResponse := resp_json result @ TOOL_RESPONSE_SEPARATOR @ resp_json toolResult,
           responseText := resp_text toolResult\<rparr>)"
proof (cases "sendMessage e k m (cx_request cx)")
  case (Inl message)
  then show ?thesis
    using first_call_throws [of message] by (simp add: attempt_def st1_def Let_def cong: option.case_cong)
next
  case (Inr result)
  show ?thesis
  proof (cases "resp_function_calls result = []")
    case True
    then show ?thesis
      using plain_answer [of result] Inr by (simp add: attempt_def st1_def Let_def cong: option.case_cong)
  next
    case False
    obtain rs w1 where rt: "run_tools e cx (resp_function_calls result) (ts_world st1) = (rs, w1)"
      by (cases "run_tools e cx (resp_function_calls result) (ts_world st1)") auto
    show ?thesis
    proof (cases "promise_all rs")
      case (Inl message)
      then show ?thesis
        using handler_throws [of result rs w1 message] Inr False rt
        by (simp add: attempt_def st1_def Let_def cong: option.case_cong)
    next
      case frs: (Inr frs)
      show ?thesis
      proof (cases "sendFunctionResponses e k m (cx_request cx) frs")
        case (Inl message)
        then show ?thesis
          using followup_throws [of result rs w1 frs message] Inr False rt frs
          by (simp add: attempt_def st1_def Let_def cong: option.case_cong)
      next
        case (Inr toolResult)
        then show ?thesis
          using followup_answer [of result rs w1 frs toolResult] \<open>sendMessage e k m (cx_request cx) = Inr result\<close> False rt frs
          by (simp add: attempt_def st1_def Let_def cong: option.case_cong)
      qed
    qed
  qed
qed

lemma attempt_world:
  "quiet ((ts_world st)\<lparr>tool_log := tool_log (ts_world (fst (attempt e cx k m st))),
                         provider_log := provider_log (ts_world (fst (attempt e cx k m st))),
                         gemini_keys := gemini_keys (ts_world (fst (attempt e cx k m st)))\<rparr>)
     (ts_world (fst (attempt e cx k m st)))"
proof (cases rule: attempt_cases [where e=e and k=k and m=m and cx=cx and st=st])
  case (first_call_throws message)
  then show ?thesis by (simp add: fail_def log_call_def quiet_def)
next
  case (plain_answer result)
  then show ?thesis by (simp add: succeed_def log_call_def quiet_def)
next
  case (handler_throws result rs w1 message)
  have "quiet ((log_call (First_call (key_id k) m) (ts_world st))
           \<lparr>tool_log := tool_log (log_call (First_call (key_id k) m) (ts_world st))
               @ resp_function_calls result\<rparr>) w1"
    using quiet_run_tools [of "log_call (First_call (key_id k) m) (ts_world st)"
        "resp_function_calls result" e cx] handler_throws(3) by simp
  then show ?thesis using handler_throws(5) by (simp add: fail_def log_call_def quiet_def)
next
  case (followup_throws result rs w1 frs message)
  have "quiet ((log_call (First_call (key_id k) m) (ts_world st))
           \<lparr>tool_log := tool_log (log_call (First_call (key_id k) m) (ts_world st))
               @ resp_function_calls result\<rparr>) w1"
    using quiet_run_tools [of "log_call (First_call (key_id k) m) (ts_world st)"
        "resp_function_calls result" e cx] followup_throws(3) by simp
  then show ?thesis using followup_throws(6) by (simp add: fail_def log_call_def quiet_def)
next
  case (followup_answer result rs w1 frs toolResult)
  have "quiet ((log_call (First_call (key_id k) m) (ts_world st))
           \<lparr>tool_log := tool_log (log_call (First_call (key_id k) m) (ts_world st))
               @ resp_function_calls result\<rparr>) w1"
    using quiet_run_tools [of "log_call (First_call (key_id k) m) (ts_world st)"
        "resp_function_calls result" e cx] followup_answer(3) by simp
  then show ?thesis using followup_answer(6) by (simp add: succeed_def log_call_def quiet_def)
qed

lemma attempt_keeps_logs:
  "chat_logs (ts_world (fst (attempt e cx k m st))) = chat_logs (ts_world st)
   \<and> bot_logs (ts_world (fst (attempt e cx k m st))) = bot_logs (ts_world st)
   \<and> prefix (user_memories (ts_world st)) (user_memories (ts_world (fst (attempt e cx k m st))))"
  using attempt_world [where e=e and k=k and m=m and cx=cx and st=st] by (simp add: quiet_def)






section \<open>The end of a turn\<close>



lemma try_keys_keeps_logs:
  "chat_logs (ts_world (try_keys e cx p t ks st)) = chat_logs (ts_world st)
   \<and> bot_logs (ts_world (try_keys e cx p t ks st)) = bot_logs (ts_world st)"
proof -
  let ?P = "\<lambda>s::turn_state. chat_logs (ts_world s) = chat_logs (ts_world st)
                \<and> bot_logs (ts_world s) = bot_logs (ts_world st)"
  have "?P (try_keys e cx p t ks st)"
  proof (rule try_keys_invariant)
    show "?P st" by simp
  next
    fix k m s
    assume "?P s"
    then show "?P (fst (attempt e cx k m s))"
      using attempt_keeps_logs [of e cx k m s] by simp
  qed
  then show ?thesis .
qed

lemma run_cascade_keeps_logs:
  "chat_logs (ts_world (run_cascade e w i)) = chat_logs w
   \<and> bot_logs (ts_world (run_cascade e w i)) = bot_logs w"
  using try_keys_keeps_logs [where st = "initial_state w"]
  by (simp add: run_cascade_def Let_def case_prod_beta initial_state_def)


lemma trim_sentinel: "trim ''[NO_REPLY]'' = ''[NO_REPLY]''"
  by (simp add: trim_def is_space_def)

lemma run_cascade_without_keys:
  "active_keys w (in_userId i) = [] \<Longrightarrow> responseText (run_cascade e w i) = []"
  by (simp add: run_cascade_def select_keys_def sort_keys_by_score_def Let_def initial_state_def)

text \<open>
  C6. When the text the cascade ends with is exactly \<open>[NO_REPLY]\<close>, the engine throws
  the error \<open>[NO_REPLY]\<close> instead of returning the text, nothing is written to the chat
  log or the audit log, and the chat route answers with its \<open>ignored\<close> reply.
\<close>

theorem no_reply_is_suppressed:
  assumes sentinel: "responseText (run_cascade e w i) = ''[NO_REPLY]''"
  shows "fst (chatWithGemini e w i) = Inl ''[NO_REPLY]''
         \<and> chat_logs (snd (chatWithGemini e w i)) = chat_logs w
         \<and> bot_logs (snd (chatWithGemini e w i)) = bot_logs w
         \<and> (i = bot_chat_input userId prompt chatId processedMedia
            \<longrightarrow> fst (bot_chat e w userId prompt chatId processedMedia) = Reply_ignored)"
proof -
  have keys: "active_keys w (in_userId i) \<noteq> []"
    using run_cascade_without_keys [of w i e] sentinel by auto
  have res: "chatWithGemini e w i = (Inl ''[NO_REPLY]'', ts_world (run_cascade e w i))"
    using keys sentinel by (simp add: chatWithGemini_def finalize_def trim_sentinel)
  have route: "fst (bot_chat e w userId prompt chatId processedMedia) = Reply_ignored"
    if "i = bot_chat_input userId prompt chatId processedMedia"
  proof -
    have "chatWithGemini e w (bot_chat_input userId prompt chatId processedMedia)
          = (Inl ''[NO_REPLY]'', ts_world (run_cascade e w i))"
      using res that by simp
    then show ?thesis by (simp add: bot_chat_def)
  qed
  show ?thesis
    using res run_cascade_keeps_logs [of e w i] route by simp
qed

theorem no_reply_is_suppressed_witness:
  "responseText (run_cascade no_reply_env two_key_world (bot_chat_input ''u1'' ''lol'' None []))
     = ''[NO_REPLY]''
   \<and> fst (chatWithGemini no_reply_env two_key_world (bot_chat_input ''u1'' ''lol'' None []))
       = Inl ''[NO_REPLY]''
   \<and> fst (bot_chat no_reply_env two_key_world ''u1'' ''lol'' None []) = Reply_ignored"
proof -
  have h: "responseText (run_cascade no_reply_env two_key_world
             (bot_chat_input ''u1'' ''lol'' None [])) = ''[NO_REPLY]''"
    by code_simp
  show ?thesis
    using no_reply_is_suppressed [OF h, of "''u1''" "''lol''" None "[]"] h by blast
qed


section \<open>Memory scoping\<close>

text \<open>
  C4, as stated, fails: without sharing, the query for sender \<open>s1\<close> on a platform also
  returns an active-learning memory of that platform whose external id is NULL.
\<close>

theorem memory_query_scope_counterexample:
  "share_for_query memory_world ''u1'' ''telegram'' = False
   \<and> query_memories memory_world ''u1'' ''telegram'' (Some ''s1'')
        (share_for_query memory_world ''u1'' ''telegram'')
       = [platform_wide_memory, own_memory, core_memory]
   \<and> memory_type platform_wide_memory = Some ''active_learning''
   \<and> external_id platform_wide_memory \<noteq> Some ''s1''"
  by code_simp

text \<open>
  C4, amended. When the platform does not share active memories, every row the memory
  query returns belongs to the tenant and is a core memory (a row without type counts as
  core), or an active-learning memory of the current platform whose external id is the
  current sender or NULL; no returned row is an active-learning memory with the external
  id of another sender.
\<close>

theorem memory_query_scope:
  assumes "\<not> share_for_query w userId platform"
  shows "\<forall>m \<in> set (query_memories w userId platform senderId (share_for_query w userId platform)).
           mem_user_id m = userId
           \<and> (memory_type m = Some ''core'' \<or> memory_type m = None
              \<or> (memory_type m = Some ''active_learning'' \<and> mem_platform m = Some platform
                  \<and> (external_id m = senderId \<or> external_id m = None)))
           \<and> \<not> (memory_type m = Some ''active_learning''
                 \<and> (\<exists>other. external_id m = Some other \<and> Some other \<noteq> senderId))"
proof
  fix m
  assume "m \<in> set (query_memories w userId platform senderId (share_for_query w userId platform))"
  then have "m \<in> set (filter (memory_selected userId platform senderId False) (user_memories w))"
    using assms by (auto simp add: query_memories_def dest: in_set_takeD)
  then have "memory_selected userId platform senderId False m" by simp
  then show "mem_user_id m = userId
           \<and> (memory_type m = Some ''core'' \<or> memory_type m = None
              \<or> (memory_type m = Some ''active_learning'' \<and> mem_platform m = Some platform
                  \<and> (external_id m = senderId \<or> external_id m = None)))
           \<and> \<not> (memory_type m = Some ''active_learning''
                 \<and> (\<exists>other. external_id m = Some other \<and> Some other \<noteq> senderId))"
    by (auto simp add: memory_selected_def)
qed

theorem memory_query_scope_witness:
  "\<not> share_for_query memory_world ''u1'' ''telegram''
   \<and> own_memory \<in> set (query_memories memory_world ''u1'' ''telegram'' (Some ''s1'')
                          (share_for_query memory_world ''u1'' ''telegram''))
   \<and> mem_user_id own_memory = ''u1''
   \<and> (memory_type own_memory = Some ''core'' \<or> memory_type own_memory = None
       \<or> (memory_type own_memory = Some ''active_learning''
           \<and> mem_platform own_memory = Some ''telegram''
           \<and> (external_id own_memory = Some ''s1'' \<or> external_id own_memory = None)))
   \<and> other_sender_memory \<notin> set (query_memories memory_world ''u1'' ''telegram'' (Some ''s1'')
                          (share_for_query memory_world ''u1'' ''telegram''))"
proof -
  have h: "\<not> share_for_query memory_world ''u1'' ''telegram''"
    by code_simp
  have mine: "own_memory \<in> set (query_memories memory_world ''u1'' ''telegram'' (Some ''s1'')
                          (share_for_query memory_world ''u1'' ''telegram''))"
    by code_simp
  have other: "memory_type other_sender_memory = Some ''active_learning''
               \<and> external_id other_sender_memory = Some ''s2'' \<and> Some ''s2'' \<noteq> Some ''s1''"
    by (simp add: other_sender_memory_def)
  show ?thesis
    using memory_query_scope [OF h, of "Some ''s1''"] h mine other by blast
qed

section \<open>Declared custom tools\<close>

text \<open>
  C3 does not hold on the code: the query for custom tools takes every active tool that
  is not admin-only, whoever owns it. Here a tool of tenant \<open>u2\<close> is declared in a turn
  of tenant \<open>u1\<close>.
\<close>

theorem foreign_tool_is_declared:
  "tool_user_id foreign_tool = Some ''u2''
   \<and> in_userId sample_input = ''u1''
   \<and> customTools foreign_tool_world ''u1'' = [foreign_tool]
   \<and> custom_declaration foreign_tool
       \<in> set (cx_declarations (build_context foreign_tool_world sample_input))"
  by code_simp

section \<open>Preferred model\<close>

text \<open>
  C2 does not hold on the code when the discovered list is stored as the discovery
  service writes it (an array of objects): the one key that advertises the preferred
  model is not recognised, the engine falls back to automatic mode, and the other key
  is tried first, with another model.
\<close>

theorem preferred_model_object_format:
  "available_models key_old = Models_objects [''gemini-1.5-flash'']
   \<and> available_models key_new = Models_objects [''gemini-2.5-pro'']
   \<and> preferred_model two_key_world (sample_input\<lparr>in_modelOverride := Some ''gemini-1.5-flash''\<rparr>)
       = ''gemini-1.5-flash''
   \<and> select_keys (active_keys two_key_world ''u1'') ''gemini-1.5-flash''
       = ([key_new, key_old], ''auto'')
   \<and> attempted (provider_log (snd (chatWithGemini offline_env two_key_world
         (sample_input\<lparr>in_modelOverride := Some ''gemini-1.5-flash''\<rparr>))))
       = [(''k-new'', ''gemini-2.5-pro''), (''k-old'', ''gemini-1.5-flash'')]"
  by code_simp

text \<open>With the old format (an array of names) the preferred model is honoured: when one
  key advertises it, only that key is kept, and the model is its first candidate.\<close>

lemma preferred_model_name_format:
  assumes "p \<noteq> ''auto''" and "filter (supports p) ks = [k]"
  shows "select_keys ks p = ([k], p) \<and> hd (candidates p p k) = p"
proof -
  have "add_unique (p # cs) ms \<noteq> [] \<and> hd (add_unique (p # cs) ms) = p" for cs ms
    by (induction ms arbitrary: cs) simp_all
  then show ?thesis using assms by (simp add: select_keys_def candidates_def Let_def)
qed


section \<open>The order of the attempts\<close>














section \<open>The tool round\<close>









end
